theory Spec2Isabelle
  imports Complex_Main
begin

section \<open>Floating-point values\<close>

text \<open>
  A Python/numpy \<open>float64\<close> is modelled as a real number or one of the three IEEE
  specials. Arithmetic on finite values is exact: rounding and overflow are not
  modelled, except where a definition says so: the quantile interpolation and the
  median model the overflow of a difference or sum of two sample values, and the two
  bounds of \<open>confidence_interval\<close> are rounded to the nearest double. The
  specials follow IEEE 754, with zero taken as positive zero. Division of numpy
  floats never raises: it returns an infinity or NaN.
\<close>

datatype fval = Num real | PInf | NInf | NaN

definition inf_of :: "real \<Rightarrow> fval" where
  "inf_of s = (if s = 0 then NaN else if 0 < s then PInf else NInf)"

fun fneg :: "fval \<Rightarrow> fval" where
  "fneg (Num a) = Num (- a)"
| "fneg PInf = NInf"
| "fneg NInf = PInf"
| "fneg NaN = NaN"

fun fabs :: "fval \<Rightarrow> fval" where
  "fabs (Num a) = Num \<bar>a\<bar>"
| "fabs PInf = PInf"
| "fabs NInf = PInf"
| "fabs NaN = NaN"

fun fadd :: "fval \<Rightarrow> fval \<Rightarrow> fval" where
  "fadd (Num a) (Num b) = Num (a + b)"
| "fadd NaN _ = NaN"
| "fadd _ NaN = NaN"
| "fadd PInf NInf = NaN"
| "fadd NInf PInf = NaN"
| "fadd PInf _ = PInf"
| "fadd NInf _ = NInf"
| "fadd _ PInf = PInf"
| "fadd _ NInf = NInf"

definition fsub :: "fval \<Rightarrow> fval \<Rightarrow> fval" where
  "fsub x y = fadd x (fneg y)"

fun fmul :: "fval \<Rightarrow> fval \<Rightarrow> fval" where
  "fmul (Num a) (Num b) = Num (a * b)"
| "fmul NaN _ = NaN"
| "fmul _ NaN = NaN"
| "fmul (Num a) PInf = inf_of a"
| "fmul (Num a) NInf = inf_of (- a)"
| "fmul PInf (Num b) = inf_of b"
| "fmul NInf (Num b) = inf_of (- b)"
| "fmul PInf PInf = PInf"
| "fmul PInf NInf = NInf"
| "fmul NInf PInf = NInf"
| "fmul NInf NInf = PInf"

fun fdiv :: "fval \<Rightarrow> fval \<Rightarrow> fval" where
  "fdiv (Num a) (Num b) = (if b = 0 then inf_of a else Num (a / b))"
| "fdiv NaN _ = NaN"
| "fdiv _ NaN = NaN"
| "fdiv (Num a) PInf = Num 0"
| "fdiv (Num a) NInf = Num 0"
| "fdiv PInf (Num b) = (if b < 0 then NInf else PInf)"
| "fdiv NInf (Num b) = (if b < 0 then PInf else NInf)"
| "fdiv PInf PInf = NaN"
| "fdiv PInf NInf = NaN"
| "fdiv NInf PInf = NaN"
| "fdiv NInf NInf = NaN"

fun fsqrt :: "fval \<Rightarrow> fval" where
  "fsqrt (Num a) = (if a < 0 then NaN else Num (sqrt a))"
| "fsqrt PInf = PInf"
| "fsqrt NInf = NaN"
| "fsqrt NaN = NaN"

text \<open>
  Overflow: a sum or difference of two doubles whose magnitude reaches
  \<open>2^1024 - 2^970\<close> (the largest double plus half a unit in the last place) is an
  infinity.
\<close>

definition overflow_threshold :: real where
  "overflow_threshold = 2 ^ 1024 - 2 ^ 970"

definition ovf :: "real \<Rightarrow> fval" where
  "ovf r = (if overflow_threshold \<le> \<bar>r\<bar> then inf_of r else Num r)"

text \<open>
  Rounding to the nearest double, ties to even: a non-zero real \<open>x\<close> is rounded on the
  grid of spacing \<open>2^e\<close>, where \<open>e\<close> is \<open>floor (log2 |x|) - 52\<close> but at least \<open>-1074\<close>
  (the subnormal spacing); a result of magnitude \<open>2^1024\<close> is an infinity.
\<close>

definition round_half_even :: "real \<Rightarrow> int" where
  "round_half_even q =
     (let f = \<lfloor>q\<rfloor>; r = q - of_int f
      in if r < 1 / 2 then f else if 1 / 2 < r then f + 1 else if even f then f else f + 1)"

definition ulp_exponent :: "real \<Rightarrow> int" where
  "ulp_exponent x = max (\<lfloor>log 2 \<bar>x\<bar>\<rfloor> - 52) (- 1074)"

definition round_magnitude :: "real \<Rightarrow> real" where
  "round_magnitude x =
     (let u = 2 powr of_int (ulp_exponent x)
      in of_int (round_half_even (\<bar>x\<bar> / u)) * u)"

definition round64 :: "real \<Rightarrow> fval" where
  "round64 x =
     (if x = 0 then Num 0
      else if 2 ^ 1024 \<le> round_magnitude x then inf_of x
      else Num (sgn x * round_magnitude x))"

fun fround :: "fval \<Rightarrow> fval" where
  "fround (Num x) = round64 x"
| "fround PInf = PInf"
| "fround NInf = NInf"
| "fround NaN = NaN"

text \<open>Comparisons: every comparison with NaN is false, as in IEEE 754.\<close>

fun flt :: "fval \<Rightarrow> fval \<Rightarrow> bool" where
  "flt NaN _ = False"
| "flt _ NaN = False"
| "flt (Num a) (Num b) = (a < b)"
| "flt PInf _ = False"
| "flt _ PInf = True"
| "flt _ NInf = False"
| "flt NInf _ = True"

fun feq :: "fval \<Rightarrow> fval \<Rightarrow> bool" where
  "feq NaN _ = False"
| "feq _ NaN = False"
| "feq x y = (x = y)"

definition fle :: "fval \<Rightarrow> fval \<Rightarrow> bool" where
  "fle x y = (flt x y \<or> feq x y)"

section \<open>Exceptions and Python values\<close>

text \<open>
  A raised exception is a value: the name of its class and its message. Every
  \<open>raise ValueError("...")\<close> of the module is \<open>Inl (Exn ''ValueError'' ''...'')\<close>.
\<close>

datatype exn = Exn (exn_class: string) (exn_msg: string)

definition ValueError :: "string \<Rightarrow> exn" where
  "ValueError msg = Exn ''ValueError'' msg"

text \<open>The values stored in a result dictionary: \<open>int\<close>, \<open>float\<close> and \<open>bool\<close>.\<close>

datatype pyval = PyInt int | PyFloat fval | PyBool bool

type_synonym result_dict = "string \<rightharpoonup> pyval"

section \<open>pandas Series\<close>

text \<open>
  A sample is a Python list of floats in which \<open>None\<close> stands for a missing entry
  (NaN); the present entries are finite. \<open>pd.Series(data)\<close> labels the entries
  \<open>0, 1, ...\<close> (a RangeIndex), and \<open>dropna\<close> keeps each remaining entry with its label.
\<close>

type_synonym sample = "real option list"

type_synonym 'a series = "(nat \<times> 'a) list"

definition Series :: "'a list \<Rightarrow> 'a series" where
  "Series xs = zip [0..<length xs] xs"

definition dropna :: "real option series \<Rightarrow> real series" where
  "dropna s = List.map_filter (\<lambda>(i, v). map_option (\<lambda>x. (i, x)) v) s"

definition to_list :: "'a series \<Rightarrow> 'a list" where
  "to_list s = map snd s"

definition iloc_upto :: "nat \<Rightarrow> 'a series \<Rightarrow> 'a series" where
  \<comment> \<open>\<open>s.iloc[:k]\<close>: the first \<open>k\<close> entries by position.\<close>
  "iloc_upto k s = take k s"

subsection \<open>Reductions of pandas, numpy and scipy\<close>

text \<open>
  The library reductions, written out from their documented definitions:
  \<open>Series.mean\<close>, \<open>Series.std\<close> (\<open>ddof = 1\<close>), \<open>Series.median\<close>, \<open>Series.min\<close>,
  \<open>Series.max\<close>, \<open>Series.quantile\<close> (linear interpolation) and \<open>scipy.stats.sem\<close>.
  On an empty input each of them is NaN. The sum, the mean and the variance are the
  exact ones: the rounding error of a float sum, which can make the variance of a
  list of equal values a tiny non-zero number, is not part of these definitions.
\<close>

definition mean_r :: "real list \<Rightarrow> real" where
  "mean_r xs = sum_list xs / real (length xs)"

definition ss_dev :: "real list \<Rightarrow> real" where
  \<comment> \<open>sum of squared deviations from the mean\<close>
  "ss_dev xs = (\<Sum>x\<leftarrow>xs. (x - mean_r xs)\<^sup>2)"

definition mean :: "real list \<Rightarrow> fval" where
  "mean xs = (if xs = [] then NaN else Num (mean_r xs))"

definition var :: "real list \<Rightarrow> fval" where
  \<comment> \<open>\<open>ddof = 1\<close>: NaN when there are fewer than two values\<close>
  "var xs = (if length xs \<le> 1 then NaN else Num (ss_dev xs / (real (length xs) - 1)))"

definition std :: "real list \<Rightarrow> fval" where
  "std xs = fsqrt (var xs)"

definition sem :: "real list \<Rightarrow> fval" where
  "sem xs = fdiv (std xs) (fsqrt (Num (real (length xs))))"

definition series_min :: "real list \<Rightarrow> fval" where
  "series_min xs = (case xs of [] \<Rightarrow> NaN | x # r \<Rightarrow> Num (fold min r x))"

definition series_max :: "real list \<Rightarrow> fval" where
  "series_max xs = (case xs of [] \<Rightarrow> NaN | x # r \<Rightarrow> Num (fold max r x))"

definition lerp :: "real list \<Rightarrow> real \<Rightarrow> fval" where
  \<comment> \<open>numpy's interpolation at the virtual index \<open>h\<close> of a sorted list:
      \<open>a + (b - a) * t\<close>, and \<open>b - (b - a) * (1 - t)\<close> when \<open>t \<ge> 0.5\<close>\<close>
  "lerp s h =
     (let lo = nat \<lfloor>h\<rfloor>;
          hi = min (lo + 1) (length s - 1);
          t = h - real lo;
          a = s ! lo;
          b = s ! hi;
          diff_b_a = ovf (b - a)
      in if t < 1 / 2 then fadd (Num a) (fmul diff_b_a (Num t))
         else fsub (Num b) (fmul diff_b_a (Num (1 - t))))"

definition quantile :: "real \<Rightarrow> real list \<Rightarrow> fval" where
  "quantile q xs =
     (if xs = [] then NaN else lerp (sort xs) ((real (length xs) - 1) * q))"

definition median :: "real list \<Rightarrow> fval" where
  \<comment> \<open>the middle value, or the mean of the two middle values\<close>
  "median xs =
     (if xs = [] then NaN
      else let s = sort xs; k = length s div 2
           in if odd (length s) then Num (s ! k)
              else fdiv (ovf (s ! (k - 1) + s ! k)) (Num 2))"

section \<open>descriptive_stats\<close>

definition descriptive_stats :: "sample \<Rightarrow> exn + result_dict" where
  "descriptive_stats data =
     (if length data = 0 then Inl (ValueError ''Cannot compute statistics on empty data'')
      else
        let series = dropna (Series data) in
        if length series = 0 then Inl (ValueError ''Data contains only NaN values'')
        else
          let v = to_list series in
          Inr (map_of
            [(''n'', PyInt (int (length series))),
             (''mean'', PyFloat (mean v)),
             (''median'', PyFloat (median v)),
             (''std'', PyFloat (std v)),
             (''sem'', PyFloat (sem v)),
             (''min'', PyFloat (series_min v)),
             (''max'', PyFloat (series_max v)),
             (''q1'', PyFloat (quantile 0.25 v)),
             (''q3'', PyFloat (quantile 0.75 v)),
             (''iqr'', PyFloat (fsub (quantile 0.75 v) (quantile 0.25 v)))]))"

section \<open>Numerical routines of scipy\<close>

text \<open>
  The distribution functions and the rank and normality statistics of scipy are not
  part of the module; the operations take them as a parameter:
  \<open>t_sf x df\<close> is the survival function of Student's t with \<open>df\<close> degrees of freedom,
  \<open>t_ppf q df\<close> its quantile function (\<open>stats.t.ppf\<close>), \<open>fdtrc dfn dfd x\<close> the survival
  function of the F distribution, and the remaining four return a statistic and a
  p-value.
\<close>

record stats_lib =
  t_sf :: "fval \<Rightarrow> fval \<Rightarrow> fval"
  t_ppf :: "fval \<Rightarrow> fval \<Rightarrow> fval"
  fdtrc :: "real \<Rightarrow> real \<Rightarrow> fval \<Rightarrow> fval"
  pearsonr :: "real list \<Rightarrow> real list \<Rightarrow> fval \<times> fval"
  spearmanr :: "real list \<Rightarrow> real list \<Rightarrow> fval \<times> fval"
  kendalltau :: "real list \<Rightarrow> real list \<Rightarrow> fval \<times> fval"
  shapiro :: "real list \<Rightarrow> fval \<times> fval"

subsection \<open>stats.ttest_ind\<close>

text \<open>
  The two-sample t statistic as scipy computes it: the difference of the means over
  a denominator that is the pooled one (\<open>equal_var\<close>) or Welch's; the two-sided
  p-value is twice the survival function at \<open>|t|\<close>.
\<close>

definition equal_var_ttest_denom :: "fval \<Rightarrow> real \<Rightarrow> fval \<Rightarrow> real \<Rightarrow> fval \<times> fval" where
  "equal_var_ttest_denom v1 n1 v2 n2 =
     (let df = n1 + n2 - 2;
          svar = fdiv (fadd (fmul (Num (n1 - 1)) v1) (fmul (Num (n2 - 1)) v2)) (Num df);
          denom = fsqrt (fmul svar (fadd (fdiv (Num 1) (Num n1)) (fdiv (Num 1) (Num n2))))
      in (Num df, denom))"

definition unequal_var_ttest_denom :: "fval \<Rightarrow> real \<Rightarrow> fval \<Rightarrow> real \<Rightarrow> fval \<times> fval" where
  "unequal_var_ttest_denom v1 n1 v2 n2 =
     (let vn1 = fdiv v1 (Num n1);
          vn2 = fdiv v2 (Num n2);
          df0 = fdiv (fmul (fadd vn1 vn2) (fadd vn1 vn2))
                     (fadd (fdiv (fmul vn1 vn1) (Num (n1 - 1)))
                           (fdiv (fmul vn2 vn2) (Num (n2 - 1))));
          df = (if df0 = NaN then Num 1 else df0);
          denom = fsqrt (fadd vn1 vn2)
      in (df, denom))"

definition ttest_ind :: "stats_lib \<Rightarrow> real list \<Rightarrow> real list \<Rightarrow> bool \<Rightarrow> fval \<times> fval" where
  "ttest_ind L a b equal_var =
     (let n1 = real (length a);
          n2 = real (length b);
          v1 = var a;
          v2 = var b;
          (df, denom) = (if equal_var then equal_var_ttest_denom v1 n1 v2 n2
                         else unequal_var_ttest_denom v1 n1 v2 n2);
          d = fsub (mean a) (mean b);
          t = fdiv d denom;
          prob = fmul (Num 2) (t_sf L (fabs t) df)
      in (t, prob))"

subsection \<open>stats.ttest_rel\<close>

definition ttest_rel :: "stats_lib \<Rightarrow> real list \<Rightarrow> real list \<Rightarrow> exn + fval \<times> fval" where
  "ttest_rel L a b =
     (if length a \<noteq> length b then Inl (ValueError ''unequal length arrays'')
      else
        let n = real (length a);
            df = n - 1;
            d = map2 (-) a b;
            v = var d;
            dm = mean d;
            denom = fsqrt (fdiv v (Num n));
            t = fdiv dm denom;
            prob = fmul (Num 2) (t_sf L (fabs t) (Num df))
        in Inr (t, prob))"

subsection \<open>stats.f_oneway\<close>

text \<open>
  The F statistic from the sums of squares about the grand mean. When every group
  is constant the statistic is set to infinity, and to NaN when all the values are
  one and the same.
\<close>

definition is_const :: "real list \<Rightarrow> bool" where
  \<comment> \<open>every entry equals the first one\<close>
  "is_const xs = list_all (\<lambda>x. x = hd xs) xs"

definition f_oneway :: "stats_lib \<Rightarrow> real list list \<Rightarrow> exn + fval \<times> fval" where
  "f_oneway L gs =
     (if length gs < 2 then Inl (Exn ''TypeError'' ''at least two inputs are required'')
      else if list_ex (\<lambda>g. g = []) gs then Inr (NaN, NaN)
      else
        let alldata = concat gs;
            bign = real (length alldata);
            num_groups = real (length gs);
            offset = mean_r alldata;
            shifted = map (\<lambda>x. x - offset) alldata;
            normalized_ss = (sum_list shifted)\<^sup>2 / bign;
            sstot = (\<Sum>x\<leftarrow>shifted. x\<^sup>2) - normalized_ss;
            ssbn = (\<Sum>g\<leftarrow>gs. (\<Sum>x\<leftarrow>g. x - offset)\<^sup>2 / real (length g)) - normalized_ss;
            sswn = sstot - ssbn;
            dfbn = num_groups - 1;
            dfwn = bign - num_groups;
            msb = ssbn / dfbn;
            msw = fdiv (Num sswn) (Num dfwn);
            all_const = list_all is_const gs;
            all_same_const = is_const alldata;
            f = (if all_same_const then NaN
                 else if all_const then PInf
                 else fdiv (Num msb) msw);
            prob = fdtrc L dfbn dfwn f
        in Inr (f, prob))"

subsection \<open>Index alignment\<close>

text \<open>
  Binary operations on two Series, and a DataFrame built from two Series, align the
  entries by label: the result has the sorted union of the labels, and a label that
  one side lacks has NaN (here \<open>None\<close>) on that side.
\<close>

definition align :: "real series \<Rightarrow> real series \<Rightarrow> (nat \<times> real option \<times> real option) list" where
  "align a b =
     map (\<lambda>l. (l, map_of a l, map_of b l)) (sort (remdups (map fst a @ map fst b)))"

definition series_sub :: "real series \<Rightarrow> real series \<Rightarrow> real option series" where
  "series_sub a b =
     map (\<lambda>(l, x, y). (l, case (x, y) of (Some u, Some v) \<Rightarrow> Some (u - v) | _ \<Rightarrow> None))
       (align a b)"

definition frame_dropna :: "(nat \<times> real option \<times> real option) list \<Rightarrow> (nat \<times> real \<times> real) list" where
  "frame_dropna rows =
     List.map_filter
       (\<lambda>(l, x, y). case (x, y) of (Some u, Some v) \<Rightarrow> Some (l, u, v) | _ \<Rightarrow> None) rows"

section \<open>The operations of the module\<close>

definition fsquare :: "fval \<Rightarrow> fval" where
  \<comment> \<open>\<open>x ** 2\<close>\<close>
  "fsquare x = fmul x x"

definition independent_t_test :: "stats_lib \<Rightarrow> sample \<Rightarrow> sample \<Rightarrow> bool \<Rightarrow> exn + result_dict" where
  "independent_t_test L group1 group2 equal_var =
     (let group1_clean = dropna (Series group1);
          group2_clean = dropna (Series group2)
      in
        if length group1_clean < 2 \<or> length group2_clean < 2
        then Inl (ValueError ''Each group must have at least 2 non-NaN values'')
        else
          let (t_stat, p_value) =
                ttest_ind L (to_list group1_clean) (to_list group2_clean) equal_var;
              df = int (length group1_clean) + int (length group2_clean) - 2;
              pooled_std =
                fsqrt (fdiv
                  (fadd (fmul (Num (of_int (int (length group1_clean) - 1)))
                              (fsquare (std (to_list group1_clean))))
                        (fmul (Num (of_int (int (length group2_clean) - 1)))
                              (fsquare (std (to_list group2_clean)))))
                  (Num (of_int df)));
              cohens_d =
                fdiv (fsub (mean (to_list group1_clean)) (mean (to_list group2_clean)))
                     pooled_std
          in Inr (map_of
               [(''t_statistic'', PyFloat t_stat),
                (''p_value'', PyFloat p_value),
                (''df'', PyFloat (Num (of_int df))),
                (''cohens_d'', PyFloat cohens_d)]))"

definition paired_t_test :: "stats_lib \<Rightarrow> sample \<Rightarrow> sample \<Rightarrow> exn + result_dict" where
  "paired_t_test L before after =
     (let before_clean = dropna (Series before);
          after_clean = dropna (Series after);
          min_len = min (length before_clean) (length after_clean)
      in
        if min_len < 2
        then Inl (ValueError ''Need at least 2 complete pairs for paired t-test'')
        else
          let before_cut = iloc_upto min_len before_clean;
              after_cut = iloc_upto min_len after_clean
          in case ttest_rel L (to_list before_cut) (to_list after_cut) of
               Inl e \<Rightarrow> Inl e
             | Inr (t_stat, p_value) \<Rightarrow>
                 let mean_diff = mean (to_list (dropna (series_sub after_cut before_cut)))
                 in Inr (map_of
                      [(''t_statistic'', PyFloat t_stat),
                       (''p_value'', PyFloat p_value),
                       (''df'', PyFloat (Num (of_int (int min_len - 1)))),
                       (''mean_diff'', PyFloat mean_diff)]))"

definition one_way_anova :: "stats_lib \<Rightarrow> sample list \<Rightarrow> exn + result_dict" where
  "one_way_anova L groups =
     (if length groups < 2 then Inl (ValueError ''ANOVA requires at least 2 groups'')
      else
        let clean_groups = map (\<lambda>group. dropna (Series group)) groups in
        if list_ex (\<lambda>group. length group < 2) clean_groups
        then Inl (ValueError ''Each group must have at least 2 non-NaN values'')
        else
          case f_oneway L (map to_list clean_groups) of
            Inl e \<Rightarrow> Inl e
          | Inr (f_stat, p_value) \<Rightarrow>
              let total_n = (\<Sum>group\<leftarrow>clean_groups. int (length group));
                  df_between = int (length clean_groups) - 1;
                  df_within = total_n - int (length clean_groups)
              in Inr (map_of
                   [(''f_statistic'', PyFloat f_stat),
                    (''p_value'', PyFloat p_value),
                    (''df_between'', PyFloat (Num (of_int df_between))),
                    (''df_within'', PyFloat (Num (of_int df_within)))]))"

text \<open>
  The message of the first error of \<open>correlation_analysis\<close> prints a Python set, whose
  element order the language does not fix: the printed form is the parameter
  \<open>shown\<close>.
\<close>

definition correlation_analysis ::
    "stats_lib \<Rightarrow> string \<Rightarrow> sample \<Rightarrow> sample \<Rightarrow> string \<Rightarrow> exn + result_dict" where
  "correlation_analysis L shown x y method =
     (if method \<notin> {''pearson'', ''spearman'', ''kendall''}
      then Inl (ValueError (''Method must be one of '' @ shown))
      else
        let x_clean = dropna (Series x);
            y_clean = dropna (Series y);
            aligned_data = frame_dropna (align x_clean y_clean)
        in
          if length aligned_data < 2
          then Inl (ValueError ''Need at least 2 complete pairs for correlation'')
          else
            let xs = map (\<lambda>(l, u, v). u) aligned_data;
                ys = map (\<lambda>(l, u, v). v) aligned_data;
                (corr, p_value) =
                  (if method = ''pearson'' then pearsonr L xs ys
                   else if method = ''spearman'' then spearmanr L xs ys
                   else kendalltau L xs ys)
            in Inr (map_of
                 [(''correlation'', PyFloat corr),
                  (''p_value'', PyFloat p_value),
                  (''n'', PyInt (int (length aligned_data)))]))"

definition normality_test :: "stats_lib \<Rightarrow> sample \<Rightarrow> exn + result_dict" where
  "normality_test L data =
     (let data_clean = dropna (Series data) in
      if length data_clean < 3
      then Inl (ValueError ''Normality test requires at least 3 observations'')
      else
        let (w_stat, p_value) = shapiro L (to_list data_clean)
        in Inr (map_of
             [(''w_statistic'', PyFloat w_stat),
              (''p_value'', PyFloat p_value),
              (''is_normal'', PyBool (flt (Num 0.05) p_value))]))"

text \<open>
  The bounds of \<open>confidence_interval\<close> are the float results of \<open>mean - margin\<close> and
  \<open>mean + margin\<close>: this last subtraction and addition are rounded to a double, so
  that a margin below half the spacing of the doubles at the mean is absorbed.
\<close>

definition confidence_interval :: "stats_lib \<Rightarrow> sample \<Rightarrow> fval \<Rightarrow> exn + fval \<times> fval" where
  "confidence_interval L data confidence =
     (if \<not> (flt (Num 0) confidence \<and> flt confidence (Num 1))
      then Inl (ValueError ''Confidence level must be between 0 and 1'')
      else
        let data_clean = dropna (Series data) in
        if length data_clean < 2
        then Inl (ValueError ''Need at least 2 observations for confidence interval'')
        else
          let m = mean (to_list data_clean);
              se = sem (to_list data_clean);
              margin = fmul se
                (t_ppf L (fdiv (fadd (Num 1) confidence) (Num 2))
                   (Num (of_int (int (length data_clean) - 1))))
          in Inr (fround (fsub m margin), fround (fadd m margin)))"

section \<open>Notions of the specification\<close>

text \<open>
  The cleaned sample of the specification: the input with its missing entries
  removed, in the same order.
\<close>

primrec cleaned :: "sample \<Rightarrow> real list" where
  "cleaned [] = []"
| "cleaned (x # xs) = (case x of None \<Rightarrow> cleaned xs | Some v \<Rightarrow> v # cleaned xs)"

text \<open>Reading a key of the returned mapping; nothing is read when the call raised.\<close>

definition result_get :: "exn + result_dict \<Rightarrow> string \<Rightarrow> pyval option" where
  "result_get r k = (case r of Inl e \<Rightarrow> None | Inr d \<Rightarrow> d k)"

definition raises :: "string \<Rightarrow> exn + 'a \<Rightarrow> bool" where
  \<comment> \<open>the call raised an exception of class \<open>cls\<close>\<close>
  "raises cls r = (case r of Inl e \<Rightarrow> exn_class e = cls | Inr v \<Rightarrow> False)"

text \<open>
  The sample standard deviation (denominator \<open>n - 1\<close>) and the pooled standard
  deviation, as the specification writes them.
\<close>

definition sample_std :: "real list \<Rightarrow> real" where
  "sample_std xs = sqrt ((\<Sum>x\<leftarrow>xs. (x - mean_r xs)\<^sup>2) / (real (length xs) - 1))"

definition pooled_std_spec :: "real list \<Rightarrow> real list \<Rightarrow> real" where
  "pooled_std_spec a b =
     sqrt (((real (length a) - 1) * (sample_std a)\<^sup>2 + (real (length b) - 1) * (sample_std b)\<^sup>2)
           / (real (length a) + real (length b) - 2))"

text \<open>A stand-in for the scipy routines in concrete runs: each of them returns \<open>c\<close>.\<close>

definition const_lib :: "fval \<Rightarrow> stats_lib" where
  "const_lib c =
     \<lparr>t_sf = (\<lambda>x df. c), t_ppf = (\<lambda>q df. c), fdtrc = (\<lambda>dfn dfd x. c),
      pearsonr = (\<lambda>xs ys. (c, c)), spearmanr = (\<lambda>xs ys. (c, c)),
      kendalltau = (\<lambda>xs ys. (c, c)), shapiro = (\<lambda>xs. (c, c))\<rparr>"

text \<open>The sample variance and the standard error of the mean.\<close>

definition sample_var :: "real list \<Rightarrow> real" where
  "sample_var xs = (\<Sum>x\<leftarrow>xs. (x - mean_r xs)\<^sup>2) / (real (length xs) - 1)"

definition sem_spec :: "real list \<Rightarrow> real" where
  "sem_spec xs = sample_std xs / sqrt (real (length xs))"

text \<open>
  The aligned pairs of two samples: the positions at which both have a value.
\<close>

definition aligned_pairs :: "sample \<Rightarrow> sample \<Rightarrow> (real \<times> real) list" where
  "aligned_pairs x y =
     List.map_filter (\<lambda>(u, v). case (u, v) of (Some a, Some b) \<Rightarrow> Some (a, b) | _ \<Rightarrow> None)
       (zip x y)"

text \<open>Linear interpolation in a sorted list, in exact arithmetic.\<close>

definition lerp_r :: "real list \<Rightarrow> real \<Rightarrow> real" where
  "lerp_r s h =
     (let lo = nat \<lfloor>h\<rfloor>; hi = min (lo + 1) (length s - 1)
      in s ! lo + (h - real lo) * (s ! hi - s ! lo))"

section \<open>Cleaning\<close>

lemma dropna_zip:
  "length ls = length xs \<Longrightarrow>
   map snd (List.map_filter (\<lambda>(i, v). map_option (\<lambda>x. (i, x)) v) (zip ls xs)) = cleaned xs"
proof (induction ls xs rule: list_induct2)
  case Nil
  then show ?case by (simp add: List.map_filter_simps)
next
  case (Cons l ls x xs)
  then show ?case by (cases x) (simp_all add: List.map_filter_simps)
qed

lemma to_list_dropna_Series: "to_list (dropna (Series xs)) = cleaned xs"
  by (simp add: to_list_def dropna_def Series_def dropna_zip)

lemma length_dropna_Series: "length (dropna (Series xs)) = length (cleaned xs)"
  using to_list_dropna_Series [of xs] by (simp add: to_list_def flip: length_map [of snd])

lemma set_map_filter_conv:
  "set (List.map_filter f xs) = {y. \<exists>x\<in>set xs. f x = Some y}"
  by (induction xs) (auto simp add: List.map_filter_simps split: option.splits)

lemma set_dropna_Series:
  "set (dropna (Series xs)) = {(i, v). i < length xs \<and> xs ! i = Some v}"
  by (force simp add: dropna_def Series_def set_map_filter_conv set_zip)

lemma labels_dropna_Series:
  "fst ` set (dropna (Series xs)) = {i. i < length xs \<and> xs ! i \<noteq> None}"
  by (auto simp add: set_dropna_Series image_iff)

lemma length_frame_dropna_align:
  "length (frame_dropna (align a b)) = card (fst ` set a \<inter> fst ` set b)"
proof -
  let ?ls = "sort (remdups (map fst a @ map fst b))"
  let ?h = "\<lambda>l. (l, map_of a l, map_of b l)"
  let ?g = "\<lambda>(l, x, y). case (x, y) of (Some u, Some v) \<Rightarrow> Some (l, u, v) | _ \<Rightarrow> None"
  have d: "distinct ?ls" by simp
  have "length (frame_dropna (align a b)) = length (filter (\<lambda>r. ?g r \<noteq> None) (map ?h ?ls))"
    by (simp add: frame_dropna_def align_def List.map_filter_def)
  also have "\<dots> = length (filter (\<lambda>l. map_of a l \<noteq> None \<and> map_of b l \<noteq> None) ?ls)"
    by (simp add: filter_map comp_def)
       (rule arg_cong [where f = length], rule filter_cong, auto split: option.splits)
  also have "\<dots> = card ({l. map_of a l \<noteq> None \<and> map_of b l \<noteq> None} \<inter> set ?ls)"
    using d by (rule distinct_length_filter)
  also have "{l. map_of a l \<noteq> None \<and> map_of b l \<noteq> None} \<inter> set ?ls = fst ` set a \<inter> fst ` set b"
    by (auto simp add: map_of_eq_None_iff)
  finally show ?thesis .
qed

lemma length_aligned_pairs:
  "length (aligned_pairs x y) =
   card {i. i < length x \<and> i < length y \<and> x ! i \<noteq> None \<and> y ! i \<noteq> None}"
proof -
  let ?P = "\<lambda>(u, v). u \<noteq> None \<and> v \<noteq> (None :: real option)"
  have "length (aligned_pairs x y) = length (filter ?P (zip x y))"
    by (simp add: aligned_pairs_def List.map_filter_def)
       (rule arg_cong [where f = length], rule filter_cong, auto split: option.splits)
  also have "\<dots> = card {i. i < length (zip x y) \<and> ?P (zip x y ! i)}"
    by (rule length_filter_conv_card)
  also have "{i. i < length (zip x y) \<and> ?P (zip x y ! i)} =
             {i. i < length x \<and> i < length y \<and> x ! i \<noteq> None \<and> y ! i \<noteq> None}"
    by (auto simp add: split_beta)
  finally show ?thesis .
qed

lemma correlation_pairs_count:
  "length (frame_dropna (align (dropna (Series x)) (dropna (Series y)))) = length (aligned_pairs x y)"
proof -
  have "fst ` set (dropna (Series x)) \<inter> fst ` set (dropna (Series y)) =
        {i. i < length x \<and> i < length y \<and> x ! i \<noteq> None \<and> y ! i \<noteq> None}"
    unfolding labels_dropna_Series by blast
  then show ?thesis by (simp add: length_frame_dropna_align length_aligned_pairs)
qed

section \<open>Arithmetic of float values\<close>

lemma overflow_threshold_gt: "2 ^ 1023 < overflow_threshold"
proof -
  have "(2::real) ^ 970 < 2 ^ 1023" by (rule power_strict_increasing) simp_all
  moreover have "(2::real) ^ 1024 = 2 ^ 1023 + 2 ^ 1023" by simp
  ultimately show ?thesis by (simp add: overflow_threshold_def)
qed

lemma ovf_small: "\<bar>r\<bar> \<le> 2 ^ 1023 \<Longrightarrow> ovf r = Num r"
  using overflow_threshold_gt by (simp add: ovf_def)

lemma ovf_zero: "ovf 0 = Num 0"
  by (rule ovf_small) simp


lemma rhe_lower: "q - of_int \<lfloor>q\<rfloor> > 1 / 2 \<Longrightarrow> round_half_even q = \<lfloor>q\<rfloor> + 1"
  by (simp add: round_half_even_def Let_def)


















lemma fle_simps [simp]:
  "fle (Num a) (Num b) \<longleftrightarrow> a \<le> b"
  "fle (Num a) PInf" "fle NInf (Num b)" "fle NInf PInf" "fle PInf PInf" "fle NInf NInf"
  by (auto simp add: fle_def)



lemma fadd_commute: "fadd x y = fadd y x"
  by (cases x; cases y) simp_all

lemma fneg_inf_of: "fneg (inf_of a) = inf_of (- a)"
  by (simp add: inf_of_def)

lemma fsub_swap: "fsub y x = fneg (fsub x y)"
  by (cases x; cases y) (simp_all add: fsub_def)

lemma fdiv_fneg: "fdiv (fneg x) y = fneg (fdiv x y)"
  by (cases x; cases y) (simp_all add: fneg_inf_of)

lemma fabs_fneg: "fabs (fneg x) = fabs x"
  by (cases x) simp_all

section \<open>The error raised on a precondition violation\<close>

lemma raises_ValueError [simp]: "raises ''ValueError'' (Inl (ValueError msg))"
  by (simp add: raises_def ValueError_def)

text \<open>
  Claim C1, as stated, fails: a group with a single value makes
  \<open>independent_t_test\<close> raise the built-in \<open>ValueError\<close>, not an
  \<open>InsufficientDataError\<close>.
\<close>

theorem precondition_violation_not_InsufficientDataError:
  "raises ''ValueError'' (independent_t_test (const_lib NaN) [Some 1] [Some 1, Some 2] True) \<and>
   \<not> raises ''InsufficientDataError''
        (independent_t_test (const_lib NaN) [Some 1] [Some 1, Some 2] True)"
  by (simp add: independent_t_test_def Series_def dropna_def List.map_filter_simps raises_def
      ValueError_def)

text \<open>
  Claim C1, amended: every precondition violation of the seven operations (no
  non-missing value for \<open>descriptive_stats\<close>; a group or sample with fewer than two
  non-missing values for the t-tests, the ANOVA and the confidence interval; fewer
  than two groups; a method other than the three known ones or fewer than two aligned
  pairs; fewer than three values for the normality test; a confidence level outside
  the open interval \<open>(0, 1)\<close>) raises \<open>ValueError\<close>, so no result mapping is returned.
\<close>

theorem precondition_violations_raise_ValueError:
  "(cleaned data = [] \<longrightarrow> raises ''ValueError'' (descriptive_stats data)) \<and>
   (length (cleaned group1) < 2 \<or> length (cleaned group2) < 2 \<longrightarrow>
      raises ''ValueError'' (independent_t_test L group1 group2 ev)) \<and>
   (length (cleaned before) < 2 \<or> length (cleaned after) < 2 \<longrightarrow>
      raises ''ValueError'' (paired_t_test L before after)) \<and>
   (length groups < 2 \<or> (\<exists>g \<in> set groups. length (cleaned g) < 2) \<longrightarrow>
      raises ''ValueError'' (one_way_anova L groups)) \<and>
   (method \<notin> {''pearson'', ''spearman'', ''kendall''} \<or>
    length (aligned_pairs x y) < 2 \<longrightarrow>
      raises ''ValueError'' (correlation_analysis L shown x y method)) \<and>
   (length (cleaned data) < 3 \<longrightarrow> raises ''ValueError'' (normality_test L data)) \<and>
   (\<not> (flt (Num 0) confidence \<and> flt confidence (Num 1)) \<or> length (cleaned data) < 2 \<longrightarrow>
      raises ''ValueError'' (confidence_interval L data confidence))"
proof (intro conjI impI)
  assume "cleaned data = []"
  then show "raises ''ValueError'' (descriptive_stats data)"
    using length_dropna_Series [of data] by (simp add: descriptive_stats_def)
next
  assume "length (cleaned group1) < 2 \<or> length (cleaned group2) < 2"
  then show "raises ''ValueError'' (independent_t_test L group1 group2 ev)"
    by (simp add: independent_t_test_def length_dropna_Series)
next
  assume "length (cleaned before) < 2 \<or> length (cleaned after) < 2"
  then show "raises ''ValueError'' (paired_t_test L before after)"
    by (auto simp add: paired_t_test_def Let_def length_dropna_Series)
next
  assume "length groups < 2 \<or> (\<exists>g \<in> set groups. length (cleaned g) < 2)"
  then show "raises ''ValueError'' (one_way_anova L groups)"
    by (auto simp add: one_way_anova_def Let_def length_dropna_Series list_ex_iff)
next
  assume "method \<notin> {''pearson'', ''spearman'', ''kendall''} \<or>
    length (aligned_pairs x y) < 2"
  then show "raises ''ValueError'' (correlation_analysis L shown x y method)"
    by (auto simp add: correlation_analysis_def Let_def correlation_pairs_count)
next
  assume "length (cleaned data) < 3"
  then show "raises ''ValueError'' (normality_test L data)"
    by (simp add: normality_test_def length_dropna_Series)
next
  assume "\<not> (flt (Num 0) confidence \<and> flt confidence (Num 1)) \<or> length (cleaned data) < 2"
  then show "raises ''ValueError'' (confidence_interval L data confidence)"
    by (auto simp add: confidence_interval_def length_dropna_Series)
qed

theorem precondition_violations_raise_ValueError_witness:
  "cleaned [None] = [] \<and> length (cleaned [Some 1]) < 2 \<and> length [[Some 1, Some 2]] < 2 \<and>
   ''cosine'' \<notin> {''pearson'', ''spearman'', ''kendall''} \<and> \<not> flt (Num 2) (Num 1) \<and>
   raises ''ValueError'' (descriptive_stats [None]) \<and>
   raises ''ValueError'' (independent_t_test (const_lib NaN) [Some 1] [Some 1, Some 2] False) \<and>
   raises ''ValueError'' (paired_t_test (const_lib NaN) [Some 1] [Some 1, Some 2]) \<and>
   raises ''ValueError'' (one_way_anova (const_lib NaN) [[Some 1, Some 2]]) \<and>
   raises ''ValueError'' (correlation_analysis (const_lib NaN) ''{}'' [Some 1] [Some 2] ''cosine'') \<and>
   raises ''ValueError'' (normality_test (const_lib NaN) [None]) \<and>
   raises ''ValueError'' (confidence_interval (const_lib NaN) [None] (Num 2))"
  using precondition_violations_raise_ValueError
    [of "[None]" "[Some 1]" "[Some 1, Some 2]" "const_lib NaN" False "[Some 1]" "[Some 1, Some 2]"
        "[[Some 1, Some 2]]" "''cosine''" "[Some 1]" "[Some 2]" "''{}''" "Num 2"]
  by simp

section \<open>descriptive_stats on a single value\<close>

text \<open>
  Claim C2, as stated, fails: on the sample \<open>[5]\<close> both quartiles are 5, not 0.
\<close>

theorem descriptive_stats_single_q1_not_zero:
  "result_get (descriptive_stats [Some 5]) ''q1'' = Some (PyFloat (Num 5)) \<and>
   result_get (descriptive_stats [Some 5]) ''q1'' \<noteq> Some (PyFloat (Num 0)) \<and>
   result_get (descriptive_stats [Some 5]) ''q3'' = Some (PyFloat (Num 5)) \<and>
   result_get (descriptive_stats [Some 5]) ''q3'' \<noteq> Some (PyFloat (Num 0))"
  by (simp add: descriptive_stats_def Let_def Series_def dropna_def List.map_filter_simps
      to_list_def quantile_def lerp_def ovf_zero result_get_def)

text \<open>
  Claim C2, amended: \<open>descriptive_stats\<close> applied to the single-element sample \<open>[5]\<close>
  returns the mapping with \<open>n = 1\<close>, mean, median, min, max, q1 and q3 all equal to 5,
  \<open>iqr = 0\<close>, and std and sem NaN.
\<close>

theorem descriptive_stats_single:
  "descriptive_stats [Some 5] = Inr (map_of
     [(''n'', PyInt 1), (''mean'', PyFloat (Num 5)), (''median'', PyFloat (Num 5)),
      (''std'', PyFloat NaN), (''sem'', PyFloat NaN),
      (''min'', PyFloat (Num 5)), (''max'', PyFloat (Num 5)),
      (''q1'', PyFloat (Num 5)), (''q3'', PyFloat (Num 5)), (''iqr'', PyFloat (Num 0))])"
  by (simp add: descriptive_stats_def Series_def dropna_def List.map_filter_simps to_list_def
      mean_def mean_r_def median_def std_def var_def sem_def series_min_def series_max_def
      quantile_def lerp_def ovf_zero fsub_def)

section \<open>independent_t_test\<close>

lemma equal_var_denom_swap:
  "equal_var_ttest_denom v2 n2 v1 n1 = equal_var_ttest_denom v1 n1 v2 n2"
  by (simp only: equal_var_ttest_denom_def Let_def
      fadd_commute [of "fmul (Num (n2 - 1)) v2" "fmul (Num (n1 - 1)) v1"]
      fadd_commute [of "fdiv (Num 1) (Num n2)" "fdiv (Num 1) (Num n1)"] add.commute [of n2 n1])

lemma unequal_var_denom_swap:
  "unequal_var_ttest_denom v2 n2 v1 n1 = unequal_var_ttest_denom v1 n1 v2 n2"
  by (simp only: unequal_var_ttest_denom_def Let_def
      fadd_commute [of "fdiv v2 (Num n2)" "fdiv v1 (Num n1)"]
      fadd_commute [of "fdiv (fmul (fdiv v2 (Num n2)) (fdiv v2 (Num n2))) (Num (n2 - 1))"
                       "fdiv (fmul (fdiv v1 (Num n1)) (fdiv v1 (Num n1))) (Num (n1 - 1))"])

lemma ttest_ind_swap:
  "ttest_ind L b a ev = (fneg (fst (ttest_ind L a b ev)), snd (ttest_ind L a b ev))"
  by (simp only: ttest_ind_def Let_def equal_var_denom_swap [of "var b" _ "var a"]
      unequal_var_denom_swap [of "var b" _ "var a"] fsub_swap [of "mean b" "mean a"]
      fdiv_fneg fabs_fneg fst_conv snd_conv split: prod.splits if_splits) simp

lemma ss_dev_nonneg: "0 \<le> ss_dev xs"
  unfolding ss_dev_def by (rule sum_list_nonneg) auto

lemma std_valid: "2 \<le> length xs \<Longrightarrow> std xs = Num (sample_std xs)"
  using ss_dev_nonneg [of xs]
  by (simp add: std_def var_def sample_std_def ss_dev_def not_less)

lemma mean_valid: "xs \<noteq> [] \<Longrightarrow> mean xs = Num (mean_r xs)"
  by (simp add: mean_def)

lemma pooled_valid:
  assumes "2 \<le> length a" "2 \<le> length b"
  shows "fsqrt (fdiv
           (fadd (fmul (Num (real (length a) - 1)) (fsquare (std a)))
                 (fmul (Num (real (length b) - 1)) (fsquare (std b))))
           (Num (real (length a) + real (length b) - 2)))
         = Num (pooled_std_spec a b)"
proof -
  let ?num = "(real (length a) - 1) * (sample_std a)\<^sup>2 + (real (length b) - 1) * (sample_std b)\<^sup>2"
  let ?df = "real (length a) + real (length b) - 2"
  have df: "0 < ?df" using assms by simp
  have num: "0 \<le> ?num" using assms by simp
  have q: "0 \<le> ?num / ?df" using df num by simp
  have "fdiv
           (fadd (fmul (Num (real (length a) - 1)) (fsquare (std a)))
                 (fmul (Num (real (length b) - 1)) (fsquare (std b))))
           (Num (real (length a) + real (length b) - 2)) = Num (?num / ?df)"
    using assms df by (simp add: std_valid fsquare_def power2_eq_square)
  then show ?thesis using q by (simp add: pooled_std_spec_def not_less)
qed

lemma independent_t_test_valid:
  assumes "2 \<le> length (cleaned group1)" "2 \<le> length (cleaned group2)"
  shows "independent_t_test L group1 group2 ev =
     Inr (map_of
       [(''t_statistic'', PyFloat (fst (ttest_ind L (cleaned group1) (cleaned group2) ev))),
        (''p_value'', PyFloat (snd (ttest_ind L (cleaned group1) (cleaned group2) ev))),
        (''df'', PyFloat (Num (real (length (cleaned group1)) + real (length (cleaned group2)) - 2))),
        (''cohens_d'', PyFloat (fdiv (Num (mean_r (cleaned group1) - mean_r (cleaned group2)))
                                  (Num (pooled_std_spec (cleaned group1) (cleaned group2)))))])"
proof -
  have ne: "cleaned group1 \<noteq> []" "cleaned group2 \<noteq> []" using assms by auto
  show ?thesis
    using assms
    by (simp add: independent_t_test_def Let_def length_dropna_Series to_list_dropna_Series
        pooled_valid mean_valid [OF ne(1)] mean_valid [OF ne(2)] fsub_def
        split: prod.splits del: fdiv.simps)
qed

lemma pooled_std_spec_swap: "pooled_std_spec b a = pooled_std_spec a b"
  by (simp add: pooled_std_spec_def add.commute)



text \<open>
  Claim C4: for two valid groups, swapping the arguments of \<open>independent_t_test\<close>
  negates \<open>t_statistic\<close> and \<open>cohens_d\<close> and leaves \<open>p_value\<close> and \<open>df\<close> unchanged.
\<close>

theorem independent_t_test_swap:
  assumes "2 \<le> length (cleaned group1)" "2 \<le> length (cleaned group2)"
  shows "\<exists>t p d c.
     independent_t_test L group1 group2 ev =
       Inr (map_of [(''t_statistic'', PyFloat t), (''p_value'', PyFloat p),
                    (''df'', PyFloat d), (''cohens_d'', PyFloat c)]) \<and>
     independent_t_test L group2 group1 ev =
       Inr (map_of [(''t_statistic'', PyFloat (fneg t)), (''p_value'', PyFloat p),
                    (''df'', PyFloat d), (''cohens_d'', PyFloat (fneg c))])"
proof -
  let ?a = "cleaned group1" and ?b = "cleaned group2"
  have d: "fdiv (Num (mean_r ?b - mean_r ?a)) (Num (pooled_std_spec ?b ?a)) =
           fneg (fdiv (Num (mean_r ?a - mean_r ?b)) (Num (pooled_std_spec ?a ?b)))"
    using fdiv_fneg [of "Num (mean_r ?a - mean_r ?b)" "Num (pooled_std_spec ?a ?b)"]
    by (simp only: pooled_std_spec_swap [of ?b ?a] fneg.simps minus_diff_eq)
  have n: "real (length ?b) + real (length ?a) - 2 = real (length ?a) + real (length ?b) - 2"
    by simp
  show ?thesis
    unfolding independent_t_test_valid [OF assms] independent_t_test_valid [OF assms(2) assms(1)]
      ttest_ind_swap [of L ?b ?a ev] d n fst_conv snd_conv
    by blast
qed

theorem independent_t_test_swap_witness:
  "2 \<le> length (cleaned [Some 1, Some 3]) \<and> 2 \<le> length (cleaned [Some 2, None, Some 4]) \<and>
   (\<exists>t p d c.
     independent_t_test (const_lib (Num (1/2))) [Some 1, Some 3] [Some 2, None, Some 4] True =
       Inr (map_of [(''t_statistic'', PyFloat t), (''p_value'', PyFloat p),
                    (''df'', PyFloat d), (''cohens_d'', PyFloat c)]) \<and>
     independent_t_test (const_lib (Num (1/2))) [Some 2, None, Some 4] [Some 1, Some 3] True =
       Inr (map_of [(''t_statistic'', PyFloat (fneg t)), (''p_value'', PyFloat p),
                    (''df'', PyFloat d), (''cohens_d'', PyFloat (fneg c))]))"
  using independent_t_test_swap
    [of "[Some 1, Some 3]" "[Some 2, None, Some 4]" "const_lib (Num (1/2))" True]
  by simp



section \<open>paired_t_test\<close>

lemma to_list_iloc: "to_list (iloc_upto m (dropna (Series xs))) = take m (cleaned xs)"
  by (simp add: to_list_def iloc_upto_def take_map [symmetric]
      to_list_dropna_Series [unfolded to_list_def])

lemma ttest_rel_same_length:
  "length a = length b \<Longrightarrow> \<exists>t p. ttest_rel L a b = Inr (t, p)"
  by (simp add: ttest_rel_def Let_def)

text \<open>
  Claim C5: \<open>paired_t_test\<close> cleans each sample on its own, cuts both cleaned samples
  to the length of the shorter one, pairs them by position for the t-test, raises
  when fewer than two pairs remain, and returns \<open>df\<close> equal to the number of pairs
  minus one.
\<close>

theorem paired_t_test_truncates:
  "(min (length (cleaned before)) (length (cleaned after)) < 2 \<longrightarrow>
      raises ''ValueError'' (paired_t_test L before after)) \<and>
   (2 \<le> min (length (cleaned before)) (length (cleaned after)) \<longrightarrow>
      (\<exists>t p md.
         ttest_rel L (take (min (length (cleaned before)) (length (cleaned after))) (cleaned before))
                     (take (min (length (cleaned before)) (length (cleaned after))) (cleaned after))
           = Inr (t, p) \<and>
         paired_t_test L before after =
           Inr (map_of
             [(''t_statistic'', PyFloat t), (''p_value'', PyFloat p),
              (''df'', PyFloat (Num (real (min (length (cleaned before)) (length (cleaned after))) - 1))),
              (''mean_diff'', PyFloat md)])))"
proof (intro conjI impI)
  assume "min (length (cleaned before)) (length (cleaned after)) < 2"
  then show "raises ''ValueError'' (paired_t_test L before after)"
    by (simp add: paired_t_test_def Let_def length_dropna_Series)
next
  let ?m = "min (length (cleaned before)) (length (cleaned after))"
  assume m: "2 \<le> ?m"
  have "length (take ?m (cleaned before)) = length (take ?m (cleaned after))" by simp
  from ttest_rel_same_length [OF this, of L]
  obtain t p where tp: "ttest_rel L (take ?m (cleaned before)) (take ?m (cleaned after)) = Inr (t, p)"
    by blast
  have "paired_t_test L before after =
           Inr (map_of
             [(''t_statistic'', PyFloat t), (''p_value'', PyFloat p),
              (''df'', PyFloat (Num (real ?m - 1))),
              (''mean_diff'', PyFloat (mean (to_list (dropna (series_sub
                  (iloc_upto ?m (dropna (Series after))) (iloc_upto ?m (dropna (Series before))))))))])"
    using m tp
    by (simp add: paired_t_test_def Let_def length_dropna_Series to_list_iloc not_less
        del: min_less_iff_conj)
  with tp show "\<exists>t p md.
         ttest_rel L (take ?m (cleaned before)) (take ?m (cleaned after)) = Inr (t, p) \<and>
         paired_t_test L before after =
           Inr (map_of
             [(''t_statistic'', PyFloat t), (''p_value'', PyFloat p),
              (''df'', PyFloat (Num (real ?m - 1))),
              (''mean_diff'', PyFloat md)])"
    by blast
qed


theorem paired_t_test_truncates_witness:
  "min (length (cleaned [Some 1, None])) (length (cleaned [Some 2, Some 4, Some 6])) < 2 \<and>
   raises ''ValueError'' (paired_t_test (const_lib NaN) [Some 1, None] [Some 2, Some 4, Some 6]) \<and>
   2 \<le> min (length (cleaned [Some 1, None, Some 3])) (length (cleaned [Some 2, Some 4, Some 6])) \<and>
   result_get (paired_t_test (const_lib NaN) [Some 1, None, Some 3] [Some 2, Some 4, Some 6]) ''df''
     = Some (PyFloat (Num 1))"
proof -
  have h1: "min (length (cleaned [Some 1, None])) (length (cleaned [Some 2, Some 4, Some 6])) < 2"
    by simp
  have h2: "2 \<le> min (length (cleaned [Some 1, None, Some 3])) (length (cleaned [Some 2, Some 4, Some 6]))"
    by simp
  from paired_t_test_truncates [of "[Some 1, None]" "[Some 2, Some 4, Some 6]" "const_lib NaN"] h1
  have r: "raises ''ValueError'' (paired_t_test (const_lib NaN) [Some 1, None] [Some 2, Some 4, Some 6])"
    by blast
  from paired_t_test_truncates [of "[Some 1, None, Some 3]" "[Some 2, Some 4, Some 6]" "const_lib NaN"] h2
  obtain t p md where
    "paired_t_test (const_lib NaN) [Some 1, None, Some 3] [Some 2, Some 4, Some 6] =
       Inr (map_of
         [(''t_statistic'', PyFloat t), (''p_value'', PyFloat p),
          (''df'', PyFloat (Num (real (min (length (cleaned [Some 1, None, Some 3]))
                                           (length (cleaned [Some 2, Some 4, Some 6]))) - 1))),
          (''mean_diff'', PyFloat md)])"
    by blast
  then have "result_get (paired_t_test (const_lib NaN) [Some 1, None, Some 3] [Some 2, Some 4, Some 6]) ''df''
     = Some (PyFloat (Num 1))"
    by (simp add: result_get_def)
  with h1 h2 r show ?thesis by blast
qed












text \<open>
  With missing values at different positions the subtraction \<open>after - before\<close> pairs
  the entries by their index labels, not by position: here the t-test pairs
  \<open>(1, 3)\<close> and \<open>(2, 4)\<close>, whose mean difference is 2, while \<open>mean_diff\<close> is the single
  label-matched difference \<open>4 - 1\<close>.
\<close>

lemma paired_mean_diff_by_label:
  "result_get (paired_t_test (const_lib NaN) [None, Some 1, Some 2] [Some 3, Some 4, None])
     ''mean_diff'' = Some (PyFloat (Num 3))"
  by (simp add: paired_t_test_def Let_def Series_def dropna_def List.map_filter_simps
      iloc_upto_def to_list_def ttest_rel_def series_sub_def align_def mean_def mean_r_def
      result_get_def upt_rec [of 0] upt_rec [of 1] upt_rec [of 2])

section \<open>confidence_interval\<close>


lemma sample_var_nonneg: "2 \<le> length xs \<Longrightarrow> 0 \<le> sample_var xs"
  using ss_dev_nonneg [of xs] by (simp add: sample_var_def ss_dev_def)

lemma sem_spec_pos:
  assumes "2 \<le> length xs" "sample_var xs \<noteq> 0"
  shows "0 < sem_spec xs"
proof -
  have "0 < sample_var xs" using sample_var_nonneg [OF assms(1)] assms(2) by simp
  then have "0 < sample_std xs" by (simp add: sample_std_def sample_var_def)
  moreover have "0 < sqrt (real (length xs))" using assms(1) by auto
  ultimately show ?thesis by (simp add: sem_spec_def)
qed







section \<open>Quartiles of descriptive_stats\<close>

lemma lerp_r_between:
  assumes "sorted s" "0 \<le> h" "h \<le> real (length s) - 1"
  shows "s ! nat \<lfloor>h\<rfloor> \<le> lerp_r s h" "lerp_r s h \<le> s ! min (nat \<lfloor>h\<rfloor> + 1) (length s - 1)"
proof -
  let ?lo = "nat \<lfloor>h\<rfloor>"
  let ?hi = "min (?lo + 1) (length s - 1)"
  have n: "0 < length s" using assms(2,3) by (cases s) auto
  have lo_le: "real ?lo \<le> h" using assms(2) by simp
  have lo: "?lo \<le> length s - 1"
  proof -
    have "real ?lo \<le> real (length s - 1)" using lo_le assms(3) n by (simp add: of_nat_diff)
    then show ?thesis by simp
  qed
  have hi: "?hi < length s" using n by arith
  have lohi: "?lo \<le> ?hi" using lo by simp
  have le: "s ! ?lo \<le> s ! ?hi" using assms(1) lohi hi by (rule sorted_nth_mono)
  have f0: "0 \<le> h - real ?lo" using lo_le by simp
  have f1: "h - real ?lo \<le> 1" using assms(2) by linarith
  have e: "lerp_r s h = s ! ?lo + (h - real ?lo) * (s ! ?hi - s ! ?lo)"
    by (simp add: lerp_r_def Let_def)
  show "s ! ?lo \<le> lerp_r s h" using f0 le by (simp add: e)
  have "(h - real ?lo) * (s ! ?hi - s ! ?lo) \<le> 1 * (s ! ?hi - s ! ?lo)"
    using f1 le by (intro mult_right_mono) simp_all
  then show "lerp_r s h \<le> s ! ?hi" by (simp add: e)
qed

lemma lerp_r_mono:
  assumes "sorted s" "0 \<le> h" "h \<le> h'" "h' \<le> real (length s) - 1"
  shows "lerp_r s h \<le> lerp_r s h'"
proof (cases "\<lfloor>h\<rfloor> = \<lfloor>h'\<rfloor>")
  case True
  let ?lo = "nat \<lfloor>h\<rfloor>"
  let ?hi = "min (?lo + 1) (length s - 1)"
  have n: "0 < length s" using assms(2,3,4) by (cases s) auto
  have lo_le: "real ?lo \<le> h" using assms(2) by simp
  have "real ?lo \<le> real (length s - 1)"
    using lo_le assms(3,4) n by (simp add: of_nat_diff)
  then have lo: "?lo \<le> length s - 1" by simp
  have "s ! ?lo \<le> s ! ?hi"
    using assms(1) n lo by (intro sorted_nth_mono) arith+
  then have "(h - real ?lo) * (s ! ?hi - s ! ?lo) \<le> (h' - real ?lo) * (s ! ?hi - s ! ?lo)"
    using assms(3) by (intro mult_right_mono) simp_all
  then show ?thesis using True by (simp add: lerp_r_def Let_def)
next
  case False
  have n: "0 < length s" using assms(2,3,4) by (cases s) auto
  have fl: "\<lfloor>h\<rfloor> < \<lfloor>h'\<rfloor>" using False assms(3) floor_mono [of h h'] by linarith
  have h0: "0 \<le> \<lfloor>h\<rfloor>" using assms(2) by simp
  have lo': "nat \<lfloor>h'\<rfloor> \<le> length s - 1"
  proof -
    have "real (nat \<lfloor>h'\<rfloor>) \<le> h'" using assms(2,3) by simp
    then have "real (nat \<lfloor>h'\<rfloor>) \<le> real (length s - 1)" using assms(4) n by (simp add: of_nat_diff)
    then show ?thesis by simp
  qed
  have "nat \<lfloor>h\<rfloor> + 1 \<le> nat \<lfloor>h'\<rfloor>" using fl h0 by linarith
  then have hi: "min (nat \<lfloor>h\<rfloor> + 1) (length s - 1) \<le> nat \<lfloor>h'\<rfloor>" by simp
  have "lerp_r s h \<le> s ! min (nat \<lfloor>h\<rfloor> + 1) (length s - 1)"
    using assms by (intro lerp_r_between) simp_all
  also have "\<dots> \<le> s ! nat \<lfloor>h'\<rfloor>"
    using assms(1) hi lo' n by (intro sorted_nth_mono) linarith+
  also have "\<dots> \<le> lerp_r s h'"
    using assms by (intro lerp_r_between) simp_all
  finally show ?thesis .
qed

lemma nth_abs_bound:
  "\<forall>x\<in>set s. \<bar>x\<bar> \<le> c \<Longrightarrow> i < length s \<Longrightarrow> \<bar>s ! i\<bar> \<le> (c::real)"
  by simp

lemma lerp_exact:
  assumes "0 \<le> h" "h \<le> real (length s) - 1" "\<forall>x\<in>set s. \<bar>x\<bar> \<le> 2 ^ 1022"
  shows "lerp s h = Num (lerp_r s h)"
proof -
  let ?lo = "nat \<lfloor>h\<rfloor>"
  let ?hi = "min (?lo + 1) (length s - 1)"
  have n: "0 < length s" using assms(1,2) by (cases s) auto
  have "real ?lo \<le> h" using assms(1) by simp
  then have "real ?lo \<le> real (length s - 1)" using assms(2) n by (simp add: of_nat_diff)
  then have lo: "?lo < length s" using n by simp
  have hi: "?hi < length s" using n by arith
  have a: "\<bar>s ! ?lo\<bar> \<le> 2 ^ 1022" and b: "\<bar>s ! ?hi\<bar> \<le> 2 ^ 1022"
    by (rule nth_abs_bound [OF assms(3) lo], rule nth_abs_bound [OF assms(3) hi])
  have "\<bar>s ! ?hi - s ! ?lo\<bar> \<le> 2 ^ 1022 + 2 ^ 1022" using a b by linarith
  then have "\<bar>s ! ?hi - s ! ?lo\<bar> \<le> 2 ^ 1023" by simp
  then have d: "ovf (s ! ?hi - s ! ?lo) = Num (s ! ?hi - s ! ?lo)" by (rule ovf_small)
  show ?thesis
    unfolding lerp_def lerp_r_def Let_def d
    by (simp add: fsub_def algebra_simps)
qed

lemma median_exact:
  assumes "xs \<noteq> []" "\<forall>x\<in>set xs. \<bar>x\<bar> \<le> 2 ^ 1022"
  shows "median xs = Num (lerp_r (sort xs) ((real (length xs) - 1) / 2))"
proof (cases "odd (length xs)")
  case True
  then obtain k where k: "length xs = 2 * k + 1" by (auto elim: oddE)
  have "(real (length xs) - 1) / 2 = real k" using k by simp
  then show ?thesis using assms True k by (simp add: median_def lerp_r_def Let_def)
next
  case False
  then obtain k where k: "length xs = 2 * k" by (auto elim: evenE)
  have k0: "0 < k" using assms k by (cases k) auto
  have h: "(real (length xs) - 1) / 2 = real k - 1 / 2" using k by (simp add: field_simps)
  have fl: "\<lfloor>real k - 1 / 2\<rfloor> = int k - 1" by (rule floor_unique) simp_all
  have lo: "nat (int k - 1) = k - 1" by simp
  have hi: "min (k - 1 + 1) (length (sort xs) - 1) = k" using k k0 by simp
  have fr: "real k - 1 / 2 - real (k - 1) = 1 / 2" using k0 by (simp add: of_nat_diff)
  have e: "lerp_r (sort xs) (real k - 1 / 2) =
        sort xs ! (k - 1) + 1 / 2 * (sort xs ! k - sort xs ! (k - 1))"
    by (simp only: lerp_r_def Let_def fl lo hi fr)
  have bd: "\<forall>x\<in>set (sort xs). \<bar>x\<bar> \<le> 2 ^ 1022" using assms(2) by simp
  have i: "k - 1 < length (sort xs)" "k < length (sort xs)" using k k0 by simp_all
  have "\<bar>sort xs ! (k - 1)\<bar> \<le> 2 ^ 1022" "\<bar>sort xs ! k\<bar> \<le> 2 ^ 1022"
    by (rule nth_abs_bound [OF bd i(1)], rule nth_abs_bound [OF bd i(2)])
  then have "\<bar>sort xs ! (k - 1) + sort xs ! k\<bar> \<le> 2 ^ 1022 + 2 ^ 1022" by linarith
  then have "\<bar>sort xs ! (k - 1) + sort xs ! k\<bar> \<le> 2 ^ 1023" by simp
  then have o: "ovf (sort xs ! (k - 1) + sort xs ! k) = Num (sort xs ! (k - 1) + sort xs ! k)"
    by (rule ovf_small)
  have "median xs = Num ((sort xs ! (k - 1) + sort xs ! k) / 2)"
    using assms(1) False k o by (simp add: median_def Let_def)
  also have "(sort xs ! (k - 1) + sort xs ! k) / 2 = lerp_r (sort xs) (real k - 1 / 2)"
    unfolding e by (simp add: field_simps)
  finally show ?thesis unfolding h .
qed

lemma nat_floor_le: "0 \<le> h \<Longrightarrow> real (nat \<lfloor>h\<rfloor>) \<le> h"
  by simp

lemma series_min_Min: "xs \<noteq> [] \<Longrightarrow> series_min xs = Num (Min (set xs))"
  by (cases xs) (simp_all add: series_min_def Min.set_eq_fold del: set_simps)

lemma series_max_Max: "xs \<noteq> [] \<Longrightarrow> series_max xs = Num (Max (set xs))"
  by (cases xs) (simp_all add: series_max_def Max.set_eq_fold del: set_simps)

lemma descriptive_stats_valid:
  assumes "cleaned data \<noteq> []"
  shows "descriptive_stats data = Inr (map_of
            [(''n'', PyInt (int (length (cleaned data)))),
             (''mean'', PyFloat (mean (cleaned data))),
             (''median'', PyFloat (median (cleaned data))),
             (''std'', PyFloat (std (cleaned data))),
             (''sem'', PyFloat (sem (cleaned data))),
             (''min'', PyFloat (series_min (cleaned data))),
             (''max'', PyFloat (series_max (cleaned data))),
             (''q1'', PyFloat (quantile 0.25 (cleaned data))),
             (''q3'', PyFloat (quantile 0.75 (cleaned data))),
             (''iqr'', PyFloat (fsub (quantile 0.75 (cleaned data)) (quantile 0.25 (cleaned data))))])"
proof -
  have "data \<noteq> []" using assms by auto
  moreover have "dropna (Series data) \<noteq> []"
    using assms length_dropna_Series [of data] by auto
  ultimately show ?thesis
    by (simp add: descriptive_stats_def Let_def length_dropna_Series to_list_dropna_Series)
qed

text \<open>
  Claim C6, as stated, fails: on the sample \<open>[-2^1023, 2^1023]\<close> the difference of the
  two values overflows in the interpolation, so \<open>q1\<close> is plus infinity and \<open>q3\<close> minus
  infinity while the median is 0: neither \<open>q1 \<le> median\<close> nor \<open>median \<le> q3\<close> holds.
\<close>

theorem descriptive_stats_quartile_overflow:
  "result_get (descriptive_stats [Some (- (2 ^ 1023)), Some (2 ^ 1023)]) ''q1'' = Some (PyFloat PInf) \<and>
   result_get (descriptive_stats [Some (- (2 ^ 1023)), Some (2 ^ 1023)]) ''median'' = Some (PyFloat (Num 0)) \<and>
   result_get (descriptive_stats [Some (- (2 ^ 1023)), Some (2 ^ 1023)]) ''q3'' = Some (PyFloat NInf) \<and>
   \<not> fle PInf (Num 0) \<and> \<not> fle (Num 0) NInf"
proof -
  let ?b = "(2::real) ^ 1023"
  have c: "cleaned [Some (- ?b), Some ?b] = [- ?b, ?b]" by simp
  have ne: "cleaned [Some (- ?b), Some ?b] \<noteq> []" by simp
  have srt: "sort [- ?b, ?b] = [- ?b, ?b]" by (rule sorted_sort_id) simp
  have "overflow_threshold \<le> \<bar>?b - - ?b\<bar>" by (simp add: overflow_threshold_def)
  then have d: "ovf (?b - - ?b) = PInf" by (simp add: ovf_def inf_of_def)
  have z: "ovf (- ?b + ?b) = Num 0"
    using overflow_threshold_gt by (simp add: ovf_def)
  have q1: "quantile 0.25 [- ?b, ?b] = PInf"
    unfolding quantile_def lerp_def Let_def srt using d by (simp add: inf_of_def)
  have q3: "quantile 0.75 [- ?b, ?b] = NInf"
    unfolding quantile_def lerp_def Let_def srt using d by (simp add: inf_of_def fsub_def)
  have md: "median [- ?b, ?b] = Num 0"
    unfolding median_def Let_def srt using z by simp
  show ?thesis
    unfolding descriptive_stats_valid [OF ne] c result_get_def q1 q3 md
    by (simp add: fle_def)
qed

text \<open>
  Claim C6, amended: for every sample with at least one non-missing value whose
  values have magnitude at most \<open>2^1022\<close> (so that no sum or difference of two of them
  overflows), the mapping returned by \<open>descriptive_stats\<close> satisfies \<open>q3 - q1 = iqr\<close>
  and \<open>min \<le> q1 \<le> median \<le> q3 \<le> max\<close>.
\<close>

theorem descriptive_stats_quartile_order:
  assumes "cleaned data \<noteq> []" and "\<forall>x\<in>set (cleaned data). \<bar>x\<bar> \<le> 2 ^ 1022"
  shows "\<exists>mn q1 med q3 mx iqr.
     result_get (descriptive_stats data) ''min'' = Some (PyFloat (Num mn)) \<and>
     result_get (descriptive_stats data) ''q1'' = Some (PyFloat (Num q1)) \<and>
     result_get (descriptive_stats data) ''median'' = Some (PyFloat (Num med)) \<and>
     result_get (descriptive_stats data) ''q3'' = Some (PyFloat (Num q3)) \<and>
     result_get (descriptive_stats data) ''max'' = Some (PyFloat (Num mx)) \<and>
     result_get (descriptive_stats data) ''iqr'' = Some (PyFloat (Num iqr)) \<and>
     q3 - q1 = iqr \<and> mn \<le> q1 \<and> q1 \<le> med \<and> med \<le> q3 \<and> q3 \<le> mx"
proof -
  let ?xs = "cleaned data"
  let ?s = "sort ?xs"
  let ?n = "real (length ?xs)"
  let ?q1 = "lerp_r ?s ((?n - 1) * 0.25)"
  let ?med = "lerp_r ?s ((?n - 1) / 2)"
  let ?q3 = "lerp_r ?s ((?n - 1) * 0.75)"
  have n: "1 \<le> ?n" using assms(1) by (cases ?xs) simp_all
  have bd: "\<forall>x\<in>set ?s. \<bar>x\<bar> \<le> 2 ^ 1022" using assms(2) by simp
  have len: "length ?s = length ?xs" by simp
  have srt: "sorted ?s" by simp
  have up: "(?n - 1) * 0.25 \<le> real (length ?s) - 1" "(?n - 1) / 2 \<le> real (length ?s) - 1"
           "(?n - 1) * 0.75 \<le> real (length ?s) - 1"
    using n by simp_all
  have a: "?q1 \<le> ?med" using n up by (intro lerp_r_mono [OF srt]) simp_all
  have b: "?med \<le> ?q3" using n up by (intro lerp_r_mono [OF srt]) simp_all
  have fl0: "0 \<le> (?n - 1) * 0.25" using n by simp
  have "?s ! nat \<lfloor>(?n - 1) * 0.25\<rfloor> \<in> set ?s"
  proof (rule nth_mem)
    have "real (nat \<lfloor>(?n - 1) * 0.25\<rfloor>) \<le> (?n - 1) * 0.25"
      using fl0 by (rule nat_floor_le)
    also have "\<dots> < ?n" using n by simp
    finally show "nat \<lfloor>(?n - 1) * 0.25\<rfloor> < length ?s" by simp
  qed
  then have "Min (set ?xs) \<le> ?s ! nat \<lfloor>(?n - 1) * 0.25\<rfloor>" by simp
  also have "\<dots> \<le> ?q1" using fl0 up(1) by (intro lerp_r_between [OF srt]) simp_all
  finally have c: "Min (set ?xs) \<le> ?q1" .
  have "?s ! min (nat \<lfloor>(?n - 1) * 0.75\<rfloor> + 1) (length ?s - 1) \<in> set ?s"
    using assms(1) by (intro nth_mem) (cases ?xs, simp_all add: min_def)
  then have "?s ! min (nat \<lfloor>(?n - 1) * 0.75\<rfloor> + 1) (length ?s - 1) \<le> Max (set ?xs)" by simp
  moreover have "?q3 \<le> ?s ! min (nat \<lfloor>(?n - 1) * 0.75\<rfloor> + 1) (length ?s - 1)"
    using n up(3) by (intro lerp_r_between [OF srt]) simp_all
  ultimately have d: "?q3 \<le> Max (set ?xs)" by simp
  have fl3: "0 \<le> (?n - 1) * 0.75" using n by simp
  have q: "quantile 0.25 ?xs = Num ?q1" "quantile 0.75 ?xs = Num ?q3"
    using assms(1) lerp_exact [OF fl0 up(1) bd] lerp_exact [OF fl3 up(3) bd]
    by (simp_all add: quantile_def)
  have r: "result_get (descriptive_stats data) ''min'' = Some (PyFloat (Num (Min (set ?xs))))"
    "result_get (descriptive_stats data) ''q1'' = Some (PyFloat (Num ?q1))"
    "result_get (descriptive_stats data) ''median'' = Some (PyFloat (Num ?med))"
    "result_get (descriptive_stats data) ''q3'' = Some (PyFloat (Num ?q3))"
    "result_get (descriptive_stats data) ''max'' = Some (PyFloat (Num (Max (set ?xs))))"
    "result_get (descriptive_stats data) ''iqr'' = Some (PyFloat (Num (?q3 - ?q1)))"
    unfolding descriptive_stats_valid [OF assms(1)] result_get_def q median_exact [OF assms]
      series_min_Min [OF assms(1)] series_max_Max [OF assms(1)]
    by (simp_all add: fsub_def)
  from r a b c d show ?thesis by blast
qed

theorem descriptive_stats_quartile_order_witness:
  "cleaned [Some 4, None, Some 1, Some 3, Some 2] \<noteq> [] \<and>
   list_all (\<lambda>x. \<bar>x\<bar> \<le> 2 ^ 1022) (cleaned [Some 4, None, Some 1, Some 3, Some 2]) \<and>
   (\<exists>mn q1 med q3 mx iqr.
     result_get (descriptive_stats [Some 4, None, Some 1, Some 3, Some 2]) ''min'' = Some (PyFloat (Num mn)) \<and>
     result_get (descriptive_stats [Some 4, None, Some 1, Some 3, Some 2]) ''q1'' = Some (PyFloat (Num q1)) \<and>
     result_get (descriptive_stats [Some 4, None, Some 1, Some 3, Some 2]) ''median'' = Some (PyFloat (Num med)) \<and>
     result_get (descriptive_stats [Some 4, None, Some 1, Some 3, Some 2]) ''q3'' = Some (PyFloat (Num q3)) \<and>
     result_get (descriptive_stats [Some 4, None, Some 1, Some 3, Some 2]) ''max'' = Some (PyFloat (Num mx)) \<and>
     result_get (descriptive_stats [Some 4, None, Some 1, Some 3, Some 2]) ''iqr'' = Some (PyFloat (Num iqr)) \<and>
     q3 - q1 = iqr \<and> mn \<le> q1 \<and> q1 \<le> med \<and> med \<le> q3 \<and> q3 \<le> mx)"
proof -
  have p: "(4::real) \<le> 2 ^ 1022"
    using power_increasing [of 2 1022 "2::real"] by simp
  have h: "cleaned [Some 4, None, Some 1, Some 3, Some 2] \<noteq> []"
    "\<forall>x\<in>set (cleaned [Some 4, None, Some 1, Some 3, Some 2]). \<bar>x\<bar> \<le> 2 ^ 1022"
    using p by simp_all
  have l: "list_all (\<lambda>x. \<bar>x\<bar> \<le> 2 ^ 1022) (cleaned [Some 4, None, Some 1, Some 3, Some 2])"
    using h(2) by (simp only: list_all_iff)
  from descriptive_stats_quartile_order [OF h] h(1) l show ?thesis by blast
qed

section \<open>one_way_anova and the t-test on identical groups\<close>

text \<open>
  When all the values of two groups are one and the same number, the F statistic and
  the t statistic are both NaN.
\<close>

lemma identical_groups_give_nan:
  "result_get (one_way_anova (const_lib NaN) [[Some 1, Some 1], [Some 1, Some 1]]) ''f_statistic''
     = Some (PyFloat NaN) \<and>
   result_get (independent_t_test (const_lib NaN) [Some 1, Some 1] [Some 1, Some 1] True) ''t_statistic''
     = Some (PyFloat NaN)"
  by (simp add: one_way_anova_def independent_t_test_def f_oneway_def ttest_ind_def
      equal_var_ttest_denom_def is_const_def Let_def Series_def dropna_def to_list_def
      List.map_filter_simps var_def ss_dev_def mean_def mean_r_def fsub_def inf_of_def
      result_get_def)

end
